theory Spec2Isabelle
  imports Main "HOL-Library.Sublist"
begin

section \<open>Common Python values\<close>

text \<open>
  A Python \<open>str\<close> is a \<open>string\<close>: one \<open>char\<close> per code point, for code points
  below 256.  Exceptions are values of \<open>error\<close>; a call that may raise returns
  \<open>error + 'a\<close> with \<open>Inl\<close> the exception.  \<open>OtherError\<close> stands for whatever the
  collaborators outside these two files raise (a backend, the HTTP request, the XML
  parser).
\<close>

datatype error =
    KeyError string
  | IndexError string
  | TypeError string
  | ValueError string
  | UnboundLocalError string
  | AttributeError string
  | OtherError string

text \<open>\<open>re.split('/', s)\<close>: the pieces of \<open>s\<close> between the slashes, empty pieces kept.\<close>

fun re_split :: "char \<Rightarrow> string \<Rightarrow> string list" where
  "re_split d [] = [[]]"
| "re_split d (c # cs) =
     (if c = d then [] # re_split d cs
      else (case re_split d cs of
              [] \<Rightarrow> [[c]]
            | p # ps \<Rightarrow> (c # p) # ps))"

section \<open>src/\_get\_cubes.py\<close>

text \<open>
  A catalogue row is an association list from column names to values; a
  \<open>DataFrame\<close> is the list of its rows, a \<open>Series\<close> is one row.
\<close>

type_synonym row = "(string \<times> string) list"

datatype catalogue = Series row | DataFrame "row list"

text \<open>
  Lines 8-9 and 30-31: a Series becomes a one-row DataFrame, a DataFrame is kept.
\<close>

fun to_frame :: "catalogue \<Rightarrow> row list" where
  "to_frame (Series r) = [r]"
| "to_frame (DataFrame rs) = rs"

text \<open>
  \<open>baspy.cmip5.get_cubes\<close> and \<open>baspy.happi.get_cubes\<close> are not in these files: they are
  parameters.  A backend receives the DataFrame, the constraints and the verbose flag,
  runs in a world \<open>'w\<close> (the files it reads, what it prints) that it may change, and
  returns a sequence of cubes or raises.
\<close>

type_synonym ('c, 'k, 'w) backend =
  "catalogue \<Rightarrow> 'c \<Rightarrow> bool \<Rightarrow> 'w \<Rightarrow> (error + 'k list) \<times> 'w"

text \<open>Line 24: \<open>return cubes\<close>, where \<open>cubes\<close> is a local that may never have been bound.\<close>

definition return_cubes :: "'k list option \<Rightarrow> 'w \<Rightarrow> (error + 'k list) \<times> 'w" where
  "return_cubes cubes w =
     (case cubes of
        None \<Rightarrow> (Inl (UnboundLocalError ''cubes''), w)
      | Some cs \<Rightarrow> (Inr cs, w))"

text \<open>Lines 20-24: the second test, run after the first whatever its outcome.\<close>

definition happi_step ::
  "('c, 'k, 'w) backend \<Rightarrow> string list \<Rightarrow> row list \<Rightarrow> 'c \<Rightarrow> bool \<Rightarrow>
   'k list option \<Rightarrow> 'w \<Rightarrow> (error + 'k list) \<times> 'w" where
  "happi_step happi split_str df constraints verbose cubes w =
     (if ''happi'' \<in> set split_str then
        (case happi (DataFrame df) constraints verbose w of
           (Inl e, w') \<Rightarrow> (Inl e, w')
         | (Inr cs, w') \<Rightarrow> return_cubes (Some cs) w')
      else return_cubes cubes w)"

text \<open>Lines 16-24.\<close>

definition cmip5_step ::
  "('c, 'k, 'w) backend \<Rightarrow> ('c, 'k, 'w) backend \<Rightarrow> string list \<Rightarrow> row list \<Rightarrow>
   'c \<Rightarrow> bool \<Rightarrow> 'w \<Rightarrow> (error + 'k list) \<times> 'w" where
  "cmip5_step cmip5 happi split_str df constraints verbose w =
     (if ''cmip5'' \<in> set split_str then
        (case cmip5 (DataFrame df) constraints verbose w of
           (Inl e, w') \<Rightarrow> (Inl e, w')
         | (Inr cs, w') \<Rightarrow> happi_step happi split_str df constraints verbose (Some cs) w')
      else happi_step happi split_str df constraints verbose None w)"

text \<open>
  Lines 5-24.  \<open>filt_cat.iloc[0]\<close> raises IndexError on an empty frame and
  \<open>df0['Path']\<close> raises KeyError when the row has no such column.
\<close>

definition get_cubes ::
  "('c, 'k, 'w) backend \<Rightarrow> ('c, 'k, 'w) backend \<Rightarrow> catalogue \<Rightarrow> 'c \<Rightarrow> bool \<Rightarrow>
   'w \<Rightarrow> (error + 'k list) \<times> 'w" where
  "get_cubes cmip5 happi filt_cat constraints verbose w =
     (let df = to_frame filt_cat in
      case df of
        [] \<Rightarrow> (Inl (IndexError ''single positional indexer is out-of-bounds''), w)
      | df0 # _ \<Rightarrow>
          (case map_of df0 ''Path'' of
             None \<Rightarrow> (Inl (KeyError ''Path''), w)
           | Some path0 \<Rightarrow>
               cmip5_step cmip5 happi (re_split CHR ''/'' path0) df constraints verbose w))"

text \<open>Lines 37-42: the two length tests and \<open>return cube\<close>.\<close>

definition check_len :: "row list \<Rightarrow> 'k option \<Rightarrow> 'w \<Rightarrow> (error + 'k) \<times> 'w" where
  "check_len df cube w =
     (if length df > 1 then
        (Inl (ValueError ''Error: more than one cube present.  Try 'get_cubes' instead''), w)
      else if length df = 0 then
        (Inl (ValueError ''Error: no cubes specified in catalogue.''), w)
      else (case cube of
              None \<Rightarrow> (Inl (UnboundLocalError ''cube''), w)
            | Some k \<Rightarrow> (Inr k, w)))"

text \<open>Lines 27-42.  \<open>cube[0]\<close> raises IndexError on an empty sequence.\<close>

definition get_cube ::
  "('c, 'k, 'w) backend \<Rightarrow> ('c, 'k, 'w) backend \<Rightarrow> catalogue \<Rightarrow> 'c \<Rightarrow> bool \<Rightarrow>
   'w \<Rightarrow> (error + 'k) \<times> 'w" where
  "get_cube cmip5 happi filt_cat constraints verbose w =
     (let df = to_frame filt_cat in
      if length df = 1 then
        (case get_cubes cmip5 happi (DataFrame df) constraints verbose w of
           (Inl e, w') \<Rightarrow> (Inl e, w')
         | (Inr [], w') \<Rightarrow> (Inl (IndexError ''list index out of range''), w')
         | (Inr (k # _), w') \<Rightarrow> check_len df (Some k) w')
      else check_len df None w)"

text \<open>
  A backend for concrete runs: the world is the log of backend calls, and the backend
  appends its name and returns the given cubes.
\<close>

definition logging_backend :: "string \<Rightarrow> 'k list \<Rightarrow> ('c, 'k, string list) backend" where
  "logging_backend name cs filt_cat constraints verbose w = (Inr cs, w @ [name])"

text \<open>The segments of the first row's Path, when there is one.\<close>

definition path_segments :: "catalogue \<Rightarrow> string list option" where
  "path_segments filt_cat =
     (case to_frame filt_cat of
        [] \<Rightarrow> None
      | df0 # _ \<Rightarrow> map_option (re_split CHR ''/'') (map_of df0 ''Path''))"

section \<open>src/experimental/gen\_data\_citation.py\<close>

text \<open>
  An \<open>xml.etree.ElementTree.Element\<close>: tag, attributes, text (\<open>None\<close> for an element
  without text) and child elements in document order.
\<close>

datatype element =
  Element (tag: string) (attrib: "(string \<times> string) list") (etext: "string option")
    (children: "element list")

text \<open>
  The five locals that the loop of lines 44-63 fills, and the dictionary of lines 73-86
  that adds the arguments and the two derived entries.  A text taken from the document
  is a \<open>str\<close> or \<open>None\<close>.
\<close>

record captured =
  doi :: "string option"
  publisher :: "string option"
  publicationYear :: "string option"
  givenNames :: "string option list"
  familyNames :: "string option list"

record citation_record = captured +
  MIP :: string
  Centre :: string
  Model :: string
  Experiment :: string
  Version :: string
  names :: "string list"
  citation :: string

text \<open>Lines 55-59: the children of one creator.\<close>

fun scan_names :: "element list \<Rightarrow> 'a captured_scheme \<Rightarrow> 'a captured_scheme" where
  "scan_names [] st = st"
| "scan_names (x # xs) st =
     (if sublist ''givenName'' (tag x) then
        scan_names xs (st\<lparr>givenNames := givenNames st @ [etext x]\<rparr>)
      else if sublist ''familyName'' (tag x) then
        scan_names xs (st\<lparr>familyNames := familyNames st @ [etext x]\<rparr>)
      else scan_names xs st)"

text \<open>Lines 54-59: the creators of one \<open>creators\<close> element.\<close>

fun scan_creators :: "element list \<Rightarrow> 'a captured_scheme \<Rightarrow> 'a captured_scheme" where
  "scan_creators [] st = st"
| "scan_creators (creator # cs) st = scan_creators cs (scan_names (children creator) st)"

text \<open>Lines 53-63: the \<open>elif\<close> branches, taken when the first test is false.\<close>

definition scan_other :: "element \<Rightarrow> 'a captured_scheme \<Rightarrow> 'a captured_scheme" where
  "scan_other child st =
     (if sublist ''creators'' (tag child) then scan_creators (children child) st
      else if sublist ''publisher'' (tag child) then st\<lparr>publisher := etext child\<rparr>
      else if sublist ''publicationYear'' (tag child) then st\<lparr>publicationYear := etext child\<rparr>
      else st)"

text \<open>
  Lines 50-63.  \<open>child.attrib["identifierType"]\<close> is evaluated only when the tag contains
  \<open>identifier\<close>, and raises KeyError when the attribute is missing.
\<close>

fun scan_root :: "element list \<Rightarrow> 'a captured_scheme \<Rightarrow> error + 'a captured_scheme" where
  "scan_root [] st = Inr st"
| "scan_root (child # rest) st =
     (if sublist ''identifier'' (tag child) then
        (case map_of (attrib child) ''identifierType'' of
           None \<Rightarrow> Inl (KeyError ''identifierType'')
         | Some t \<Rightarrow>
             if t = ''DOI'' then scan_root rest (st\<lparr>doi := etext child\<rparr>)
             else scan_root rest (scan_other child st))
      else scan_root rest (scan_other child st))"

text \<open>\<open>str.isupper\<close> on one character, for the code points below 256.\<close>

definition isupper :: "char \<Rightarrow> bool" where
  "isupper c =
     (let n = (of_char c :: nat)
      in (65 \<le> n \<and> n \<le> 90) \<or> (192 \<le> n \<and> n \<le> 214) \<or> (216 \<le> n \<and> n \<le> 222))"

text \<open>\<open>sep.join(xs)\<close> on strings.\<close>

fun py_join :: "string \<Rightarrow> string list \<Rightarrow> string" where
  "py_join sep [] = []"
| "py_join sep [x] = x"
| "py_join sep (x # y # ys) = x @ sep @ py_join sep (y # ys)"

text \<open>Line 65, for one given name: \<open>".".join([c for c in s if c.isupper()]) + "."\<close>.\<close>

definition initials_of :: "string \<Rightarrow> string" where
  "initials_of s = py_join ''.'' (map (\<lambda>c. [c]) (filter isupper s)) @ ''.''"

text \<open>Line 65: the comprehension over \<open>givenNames\<close>; iterating over \<open>None\<close> raises.\<close>

fun initials :: "string option list \<Rightarrow> error + string list" where
  "initials [] = Inr []"
| "initials (None # rest) = Inl (TypeError ''NoneType object is not iterable'')"
| "initials (Some s # rest) =
     (case initials rest of
        Inl e \<Rightarrow> Inl e
      | Inr is \<Rightarrow> Inr (initials_of s # is))"

text \<open>
  Line 66: \<open>zip\<close> stops at the shorter list; \<open>", ".join([a, b])\<close> raises when the family
  name is \<open>None\<close>.
\<close>

fun join_names :: "string option list \<Rightarrow> string list \<Rightarrow> error + string list" where
  "join_names (a # as) (b # bs) =
     (case a of
        None \<Rightarrow> Inl (TypeError ''sequence item 0: expected str instance, NoneType found'')
      | Some f \<Rightarrow>
          (case join_names as bs of
             Inl e \<Rightarrow> Inl e
           | Inr ns \<Rightarrow> Inr (py_join '', '' [f, b] # ns)))"
| "join_names _ _ = Inr []"

text \<open>A replacement field of an f-string: \<open>str\<close> of the value.\<close>

fun fmt :: "string option \<Rightarrow> string" where
  "fmt None = ''None''"
| "fmt (Some s) = s"

text \<open>Lines 31-35.\<close>

definition url :: "string \<Rightarrow> string \<Rightarrow> string \<Rightarrow> string \<Rightarrow> string" where
  "url mip centre model experiment =
     ''https://cera-www.dkrz.de/WDCC/ui/cerasearch/cerarest/''
     @ ''exportcmip6?input=CMIP6.'' @ mip @ ''.'' @ centre @ ''.'' @ model @ ''.'' @ experiment
     @ ''&wt=XML''"

text \<open>Lines 68-71.\<close>

definition citation_string ::
  "string list \<Rightarrow> 'a captured_scheme \<Rightarrow> string \<Rightarrow> string \<Rightarrow> string \<Rightarrow> string \<Rightarrow> string \<Rightarrow> string"
  where
  "citation_string ns st mip centre model experiment version =
     py_join '', '' ns
     @ '' ('' @ fmt (publicationYear st) @ ''). '' @ centre @ '' '' @ model
     @ '' model output prepared for CMIP6 '' @ mip @ '' '' @ experiment @ ''. '' @ version
     @ ''. '' @ fmt (publisher st) @ ''. https://doi.org/'' @ fmt (doi st)"

text \<open>
  Lines 11-86.  \<open>requests.get(url).text\<close> followed by \<open>ET.fromstring\<close> is the parameter
  \<open>fetch\<close>: the root element the service answers with for a URL, or the exception of
  the request or of the parser.
\<close>

definition generate_citation ::
  "(string \<Rightarrow> error + element) \<Rightarrow> string \<Rightarrow> string \<Rightarrow> string \<Rightarrow> string \<Rightarrow> string \<Rightarrow>
   error + citation_record" where
  "generate_citation fetch mip centre model experiment version =
     (case fetch (url mip centre model experiment) of
        Inl e \<Rightarrow> Inl e
      | Inr root \<Rightarrow>
          (case scan_root (children root)
                  \<lparr>doi = Some [], publisher = Some [], publicationYear = Some [],
                   givenNames = [], familyNames = []\<rparr> of
             Inl e \<Rightarrow> Inl e
           | Inr st \<Rightarrow>
               (case initials (givenNames st) of
                  Inl e \<Rightarrow> Inl e
                | Inr is \<Rightarrow>
                    (case join_names (familyNames st) is of
                       Inl e \<Rightarrow> Inl e
                     | Inr ns \<Rightarrow>
                         Inr \<lparr>doi = doi st, publisher = publisher st,
                              publicationYear = publicationYear st,
                              givenNames = givenNames st, familyNames = familyNames st,
                              MIP = mip, Centre = centre, Model = model,
                              Experiment = experiment, Version = version, names = ns,
                              citation =
                                citation_string ns st mip centre model experiment version\<rparr>))))"

text \<open>\<open>row.MIP\<close> and the like on a tuple of \<open>df.itertuples()\<close>.\<close>

definition row_attr :: "row \<Rightarrow> string \<Rightarrow> error + string" where
  "row_attr r col =
     (case map_of r col of
        None \<Rightarrow> Inl (AttributeError col)
      | Some v \<Rightarrow> Inr v)"

text \<open>Lines 98-100: the arguments are evaluated from left to right, then the call.\<close>

definition row_citation :: "(string \<Rightarrow> error + element) \<Rightarrow> row \<Rightarrow> error + citation_record" where
  "row_citation fetch r =
     (case row_attr r ''MIP'' of
        Inl e \<Rightarrow> Inl e
      | Inr mip \<Rightarrow>
     (case row_attr r ''Centre'' of
        Inl e \<Rightarrow> Inl e
      | Inr centre \<Rightarrow>
     (case row_attr r ''Model'' of
        Inl e \<Rightarrow> Inl e
      | Inr model \<Rightarrow>
     (case row_attr r ''Experiment'' of
        Inl e \<Rightarrow> Inl e
      | Inr experiment \<Rightarrow>
     (case row_attr r ''Version'' of
        Inl e \<Rightarrow> Inl e
      | Inr version \<Rightarrow> generate_citation fetch mip centre model experiment version)))))"

text \<open>Lines 95-102: the loop, with \<open>results\<close> as accumulator.\<close>

fun citations_loop ::
  "(string \<Rightarrow> error + element) \<Rightarrow> row list \<Rightarrow> citation_record list \<Rightarrow>
   error + citation_record list" where
  "citations_loop fetch [] results = Inr results"
| "citations_loop fetch (r # rest) results =
     (case row_citation fetch r of
        Inl e \<Rightarrow> Inl e
      | Inr c \<Rightarrow> citations_loop fetch rest (results @ [c]))"

definition df_to_citations ::
  "(string \<Rightarrow> error + element) \<Rightarrow> row list \<Rightarrow> error + citation_record list" where
  "df_to_citations fetch df = citations_loop fetch df []"

section \<open>Notions used to state the properties\<close>

text \<open>The root children that take the first branch of the loop (line 51).\<close>

definition is_doi_child :: "element \<Rightarrow> bool" where
  "is_doi_child child =
     (sublist ''identifier'' (tag child) \<and> map_of (attrib child) ''identifierType'' = Some ''DOI'')"

text \<open>The creator elements the loop visits, in document order (lines 53-54).\<close>

definition creator_elements :: "element \<Rightarrow> element list" where
  "creator_elements root =
     concat (map children
       (filter (\<lambda>child. \<not> is_doi_child child \<and> sublist ''creators'' (tag child))
          (children root)))"

text \<open>The texts one creator adds to \<open>givenNames\<close> and to \<open>familyNames\<close> (lines 55-59).\<close>

definition given_of :: "element \<Rightarrow> string option list" where
  "given_of creator =
     map etext (filter (\<lambda>x. sublist ''givenName'' (tag x)) (children creator))"

definition family_of :: "element \<Rightarrow> string option list" where
  "family_of creator =
     map etext
       (filter (\<lambda>x. \<not> sublist ''givenName'' (tag x) \<and> sublist ''familyName'' (tag x))
          (children creator))"

text \<open>
  A document of the shape the service returns, after the example of the docstring
  (lines 21-28), and a service that answers with it for that example's query only.
\<close>

definition leaf :: "string \<Rightarrow> string \<Rightarrow> element" where
  "leaf t s = Element t [] (Some s) []"

definition creator :: "string \<Rightarrow> string \<Rightarrow> element" where
  "creator given family =
     Element ''creator'' [] None
       [leaf ''creatorName'' (family @ '', '' @ given), leaf ''givenName'' given,
        leaf ''familyName'' family]"

definition sample_root :: element where
  "sample_root =
     Element ''resource'' [] None
       [Element ''identifier'' [(''identifierType'', ''DOI'')] (Some ''10.22033/ESGF/CMIP6.6109'') [],
        Element ''creators'' [] None
          [creator ''Jeff'' ''Ridley'', creator ''Matthew'' ''Menary'',
           creator ''Till'' ''Kuhlbrodt'', creator ''Martin'' ''Andrews'',
           creator ''Tim'' ''Andrews''],
        leaf ''publisher'' ''Earth System Grid Federation'',
        leaf ''publicationYear'' ''2019'']"

definition sample_fetch :: "string \<Rightarrow> error + element" where
  "sample_fetch u =
     (if u = url ''CMIP'' ''MOHC'' ''HadGEM3-GC31-LL'' ''historical'' then Inr sample_root
      else Inl (OtherError ''HTTP 404''))"

text \<open>The record of the docstring's example output, for a given version.\<close>

definition sample_record :: "string \<Rightarrow> citation_record" where
  "sample_record version =
     \<lparr>doi = Some ''10.22033/ESGF/CMIP6.6109'',
      publisher = Some ''Earth System Grid Federation'',
      publicationYear = Some ''2019'',
      givenNames = [Some ''Jeff'', Some ''Matthew'', Some ''Till'', Some ''Martin'', Some ''Tim''],
      familyNames =
        [Some ''Ridley'', Some ''Menary'', Some ''Kuhlbrodt'', Some ''Andrews'', Some ''Andrews''],
      MIP = ''CMIP'', Centre = ''MOHC'', Model = ''HadGEM3-GC31-LL'',
      Experiment = ''historical'', Version = version,
      names = [''Ridley, J.'', ''Menary, M.'', ''Kuhlbrodt, T.'', ''Andrews, M.'', ''Andrews, T.''],
      citation =
        ''Ridley, J., Menary, M., Kuhlbrodt, T., Andrews, M., Andrews, T. (2019). ''
        @ ''MOHC HadGEM3-GC31-LL model output prepared for CMIP6 CMIP historical. ''
        @ version @ ''. Earth System Grid Federation. ''
        @ ''https://doi.org/10.22033/ESGF/CMIP6.6109''\<rparr>"

text \<open>A two-row table of model runs that differ in their version.\<close>

definition sample_row :: "string \<Rightarrow> row" where
  "sample_row version =
     [(''MIP'', ''CMIP''), (''Centre'', ''MOHC''), (''Model'', ''HadGEM3-GC31-LL''),
      (''Experiment'', ''historical''), (''Version'', version)]"

definition sample_df :: "row list" where
  "sample_df = [sample_row ''v20190624'', sample_row ''v20200101'']"

text \<open>
  A document whose second creator is an institution: it has a family name entry and no
  given name.
\<close>

definition institution_root :: element where
  "institution_root =
     Element ''resource'' [] None
       [Element ''creators'' [] None
          [creator ''Jeff'' ''Ridley'',
           Element ''creator'' [] None [leaf ''familyName'' ''Met Office'']]]"

definition institution_fetch :: "string \<Rightarrow> error + element" where
  "institution_fetch u = Inr institution_root"

text \<open>The creator elements among the children \<open>chs\<close> of a root, as the loop visits them.\<close>

definition visited :: "element list \<Rightarrow> element list" where
  "visited chs =
     concat (map children
       (filter (\<lambda>child. \<not> is_doi_child child \<and> sublist ''creators'' (tag child)) chs))"

text \<open>What \<open>generate_citation\<close> returns for the document with the institution.\<close>

definition institution_record :: citation_record where
  "institution_record =
     \<lparr>doi = Some [], publisher = Some [], publicationYear = Some [],
      givenNames = [Some ''Jeff''],
      familyNames = [Some ''Ridley'', Some ''Met Office''],
      MIP = ''CMIP'', Centre = ''MOHC'', Model = ''HadGEM3-GC31-LL'',
      Experiment = ''historical'', Version = ''v20190624'',
      names = [''Ridley, J.''],
      citation =
        ''Ridley, J. (). MOHC HadGEM3-GC31-LL model output prepared for CMIP6 CMIP historical. ''
        @ ''v20190624. . https://doi.org/''\<rparr>"

section \<open>The dispatcher\<close>

lemma get_cubes_segments:
  assumes "path_segments filt_cat = Some segs"
  shows "get_cubes cmip5 happi filt_cat c v w =
         cmip5_step cmip5 happi segs (to_frame filt_cat) c v w"
  using assms
  by (auto simp: path_segments_def get_cubes_def split: list.splits option.splits)

text \<open>
  C1, as the code has it.  When the segments of the first row's Path contain \<open>cmip5\<close>
  and not \<open>happi\<close>, \<open>get_cubes\<close> is the cmip5 backend's call on the same frame,
  constraints and flag: same result or exception, same effect.  When they contain
  \<open>happi\<close> and not \<open>cmip5\<close>, it is the happi backend's call.
\<close>

theorem get_cubes_dispatch:
  assumes "path_segments filt_cat = Some segs"
  shows "(''cmip5'' \<in> set segs \<and> ''happi'' \<notin> set segs \<longrightarrow>
            get_cubes cmip5 happi filt_cat c v w =
            cmip5 (DataFrame (to_frame filt_cat)) c v w) \<and>
         (''happi'' \<in> set segs \<and> ''cmip5'' \<notin> set segs \<longrightarrow>
            get_cubes cmip5 happi filt_cat c v w =
            happi (DataFrame (to_frame filt_cat)) c v w)"
  unfolding get_cubes_segments [OF assms]
  by (auto simp: cmip5_step_def happi_step_def return_cubes_def split: prod.splits sum.splits)

theorem get_cubes_dispatch_witness:
  "get_cubes (logging_backend ''cmip5'' [1::nat]) (logging_backend ''happi'' [2])
     (DataFrame [[(''Path'', ''a/b/cmip5/c'')]]) () True [] = (Inr [1], [''cmip5'']) \<and>
   get_cubes (logging_backend ''cmip5'' [1::nat]) (logging_backend ''happi'' [2])
     (Series [(''Path'', ''a/happi/b'')]) () True [] = (Inr [2], [''happi''])"
  using get_cubes_dispatch [of "DataFrame [[(''Path'', ''a/b/cmip5/c'')]]"
          "[''a'', ''b'', ''cmip5'', ''c'']" "logging_backend ''cmip5'' [1::nat]"
          "logging_backend ''happi'' [2]" "()" True "[]"]
        get_cubes_dispatch [of "Series [(''Path'', ''a/happi/b'')]"
          "[''a'', ''happi'', ''b'']" "logging_backend ''cmip5'' [1::nat]"
          "logging_backend ''happi'' [2]" "()" True "[]"]
  by (simp add: path_segments_def logging_backend_def)

text \<open>
  C1 as stated fails on a Path with both tags: the segments of \<open>a/cmip5/happi\<close> contain
  \<open>cmip5\<close>, the cmip5 backend returns the cubes \<open>[1]\<close>, and \<open>get_cubes\<close> returns the
  cubes \<open>[2]\<close> of the happi backend.
\<close>

theorem get_cubes_cmip5_counterexample:
  "path_segments (DataFrame [[(''Path'', ''a/cmip5/happi'')]])
     = Some [''a'', ''cmip5'', ''happi''] \<and>
   logging_backend ''cmip5'' [1::nat] (DataFrame [[(''Path'', ''a/cmip5/happi'')]]) () True []
     = (Inr [1], [''cmip5'']) \<and>
   get_cubes (logging_backend ''cmip5'' [1::nat]) (logging_backend ''happi'' [2])
     (DataFrame [[(''Path'', ''a/cmip5/happi'')]]) () True []
     = (Inr [2], [''cmip5'', ''happi'']) \<and>
   get_cubes (logging_backend ''cmip5'' [1::nat]) (logging_backend ''happi'' [2])
     (DataFrame [[(''Path'', ''a/cmip5/happi'')]]) () True []
     \<noteq> logging_backend ''cmip5'' [1::nat] (DataFrame [[(''Path'', ''a/cmip5/happi'')]]) ()
          True []"
proof -
  have segs: "path_segments (DataFrame [[(''Path'', ''a/cmip5/happi'')]])
     = Some [''a'', ''cmip5'', ''happi'']"
    by (simp add: path_segments_def)
  have one: "logging_backend ''cmip5'' [1::nat] (DataFrame [[(''Path'', ''a/cmip5/happi'')]])
     () True [] = (Inr [1], [''cmip5''])"
    by (simp add: logging_backend_def)
  have two: "get_cubes (logging_backend ''cmip5'' [1::nat]) (logging_backend ''happi'' [2])
     (DataFrame [[(''Path'', ''a/cmip5/happi'')]]) () True []
     = (Inr [2], [''cmip5'', ''happi''])"
    by (simp add: get_cubes_def cmip5_step_def happi_step_def return_cubes_def
          logging_backend_def)
  have ne: "get_cubes (logging_backend ''cmip5'' [1::nat]) (logging_backend ''happi'' [2])
     (DataFrame [[(''Path'', ''a/cmip5/happi'')]]) () True []
     \<noteq> logging_backend ''cmip5'' [1::nat] (DataFrame [[(''Path'', ''a/cmip5/happi'')]]) ()
          True []"
    unfolding one two by simp
  show ?thesis
    by (rule conjI [OF segs conjI [OF one conjI [OF two ne]]])
qed

text \<open>
  C2.  On a record of exactly one row, \<open>get_cube\<close> runs \<open>get_cubes\<close> on the same
  arguments: it raises what \<open>get_cubes\<close> raises, and returns the first element of the
  sequence \<open>get_cubes\<close> returns (IndexError when that sequence is empty).
\<close>

theorem get_cube_single:
  assumes "length (to_frame filt_cat) = 1"
  shows "get_cube cmip5 happi filt_cat c v w =
         (case get_cubes cmip5 happi filt_cat c v w of
            (Inl e, w') \<Rightarrow> (Inl e, w')
          | (Inr [], w') \<Rightarrow> (Inl (IndexError ''list index out of range''), w')
          | (Inr (k # ks), w') \<Rightarrow> (Inr k, w'))"
proof -
  have same: "get_cubes cmip5 happi (DataFrame (to_frame filt_cat)) c v w =
              get_cubes cmip5 happi filt_cat c v w"
    by (simp add: get_cubes_def)
  show ?thesis
    using assms
    by (simp add: get_cube_def same check_len_def split: prod.splits sum.splits list.splits)
qed

theorem get_cube_single_witness:
  "length (to_frame (Series [(''Path'', ''a/happi/b'')])) = 1 \<and>
   get_cubes (logging_backend ''cmip5'' [1::nat]) (logging_backend ''happi'' [2])
     (Series [(''Path'', ''a/happi/b'')]) () True [] = (Inr [2], [''happi'']) \<and>
   get_cube (logging_backend ''cmip5'' [1::nat]) (logging_backend ''happi'' [2])
     (Series [(''Path'', ''a/happi/b'')]) () True [] = (Inr 2, [''happi''])"
  using get_cube_single [of "Series [(''Path'', ''a/happi/b'')]"
          "logging_backend ''cmip5'' [1::nat]" "logging_backend ''happi'' [2]" "()" True "[]"]
  by (simp add: get_cubes_def cmip5_step_def happi_step_def return_cubes_def
        logging_backend_def)

text \<open>
  C3.  On zero rows \<open>get_cube\<close> raises the ValueError "no cubes specified", on two or
  more rows the ValueError "more than one cube present" that names \<open>get_cubes\<close>; in
  both cases no backend has run (the world is unchanged) and no cube is returned.
\<close>

theorem get_cube_row_count_errors:
  "(length (to_frame filt_cat) = 0 \<longrightarrow>
      get_cube cmip5 happi filt_cat c v w =
      (Inl (ValueError ''Error: no cubes specified in catalogue.''), w)) \<and>
   (length (to_frame filt_cat) \<ge> 2 \<longrightarrow>
      get_cube cmip5 happi filt_cat c v w =
      (Inl (ValueError ''Error: more than one cube present.  Try 'get_cubes' instead''), w))"
  by (simp add: get_cube_def check_len_def)

theorem get_cube_row_count_errors_witness:
  "get_cube (logging_backend ''cmip5'' [1::nat]) (logging_backend ''happi'' [2])
     (DataFrame []) () True [] =
     (Inl (ValueError ''Error: no cubes specified in catalogue.''), []) \<and>
   get_cube (logging_backend ''cmip5'' [1::nat]) (logging_backend ''happi'' [2])
     (DataFrame [[(''Path'', ''a/happi/b'')], [(''Path'', ''a/happi/c'')]]) () True [] =
     (Inl (ValueError ''Error: more than one cube present.  Try 'get_cubes' instead''), [])"
  using get_cube_row_count_errors [of "DataFrame []"
          "logging_backend ''cmip5'' [1::nat]" "logging_backend ''happi'' [2]" "()" True "[]"]
        get_cube_row_count_errors
          [of "DataFrame [[(''Path'', ''a/happi/b'')], [(''Path'', ''a/happi/c'')]]"
          "logging_backend ''cmip5'' [1::nat]" "logging_backend ''happi'' [2]" "()" True "[]"]
  by simp

text \<open>
  C8.  When the segments of the first row's Path contain neither \<open>cmip5\<close> nor
  \<open>happi\<close>, \<open>get_cubes\<close> calls no backend (whatever the backends are, the world is
  unchanged) and does not return: \<open>return cubes\<close> reads a local that was never bound.
\<close>

theorem get_cubes_unknown_family:
  assumes "path_segments filt_cat = Some segs"
    and "''cmip5'' \<notin> set segs" and "''happi'' \<notin> set segs"
  shows "get_cubes cmip5 happi filt_cat c v w = (Inl (UnboundLocalError ''cubes''), w)"
  unfolding get_cubes_segments [OF assms(1)]
  using assms(2,3) by (simp add: cmip5_step_def happi_step_def return_cubes_def)

theorem get_cubes_unknown_family_witness:
  "path_segments (DataFrame [[(''Path'', ''a/cmip6/b'')]]) = Some [''a'', ''cmip6'', ''b''] \<and>
   get_cubes (logging_backend ''cmip5'' [1::nat]) (logging_backend ''happi'' [2])
     (DataFrame [[(''Path'', ''a/cmip6/b'')]]) () True [] =
     (Inl (UnboundLocalError ''cubes''), [])"
  using get_cubes_unknown_family [of "DataFrame [[(''Path'', ''a/cmip6/b'')]]"
          "[''a'', ''cmip6'', ''b'']" "logging_backend ''cmip5'' [1::nat]"
          "logging_backend ''happi'' [2]" "()" True "[]"]
  by (simp add: path_segments_def)

text \<open>
  C9.  The two tags are tested in the order cmip5, happi, and the second assignment
  overwrites the first: when the segments contain both, the cmip5 backend runs first
  and, unless it raises, \<open>get_cubes\<close> is the happi backend's call in the world the cmip5
  backend left.  So every value \<open>get_cubes\<close> returns there is the happi backend's
  result.
\<close>

theorem get_cubes_both_tags:
  assumes "path_segments filt_cat = Some segs"
    and "''cmip5'' \<in> set segs" and "''happi'' \<in> set segs"
  shows "get_cubes cmip5 happi filt_cat c v w =
           (case cmip5 (DataFrame (to_frame filt_cat)) c v w of
              (Inl e, w1) \<Rightarrow> (Inl e, w1)
            | (Inr cs, w1) \<Rightarrow> happi (DataFrame (to_frame filt_cat)) c v w1) \<and>
         (\<forall>ks w2. get_cubes cmip5 happi filt_cat c v w = (Inr ks, w2) \<longrightarrow>
            (\<exists>cs w1. cmip5 (DataFrame (to_frame filt_cat)) c v w = (Inr cs, w1) \<and>
                     happi (DataFrame (to_frame filt_cat)) c v w1 = (Inr ks, w2)))"
  unfolding get_cubes_segments [OF assms(1)]
  using assms(2,3)
  by (auto simp: cmip5_step_def happi_step_def return_cubes_def split: prod.splits sum.splits)

theorem get_cubes_both_tags_witness:
  "path_segments (DataFrame [[(''Path'', ''happi/x/cmip5'')]])
     = Some [''happi'', ''x'', ''cmip5''] \<and>
   get_cubes (logging_backend ''cmip5'' [1::nat]) (logging_backend ''happi'' [2])
     (DataFrame [[(''Path'', ''happi/x/cmip5'')]]) () True []
     = (Inr [2], [''cmip5'', ''happi'']) \<and>
   logging_backend ''happi'' [2::nat] (DataFrame [[(''Path'', ''happi/x/cmip5'')]]) () True
     [''cmip5''] = (Inr [2], [''cmip5'', ''happi''])"
proof -
  have segs: "path_segments (DataFrame [[(''Path'', ''happi/x/cmip5'')]])
     = Some [''happi'', ''x'', ''cmip5'']"
    by (simp add: path_segments_def)
  have c: "''cmip5'' \<in> set [''happi'', ''x'', ''cmip5'']"
    and h: "''happi'' \<in> set [''happi'', ''x'', ''cmip5'']"
    by simp_all
  note both = get_cubes_both_tags [OF segs c h, of "logging_backend ''cmip5'' [1::nat]"
      "logging_backend ''happi'' [2]" "()" True "[]"]
  from both [THEN conjunct1] segs
  show ?thesis
    by (simp add: logging_backend_def)
qed

section \<open>Initials\<close>

lemma py_join_dot:
  "cs \<noteq> [] \<Longrightarrow>
   py_join ''.'' (map (\<lambda>c. [c]) cs) @ ''.'' = concat (map (\<lambda>c. [c, CHR ''.'']) cs)"
  by (induction cs rule: induct_list012) auto

text \<open>
  C5, as the code has it.  The initials of a given name are its uppercase characters
  in order, each followed by a period; a name without an uppercase character gives
  one period.
\<close>

theorem initials_of_shape:
  "initials_of s =
     (if filter isupper s = [] then ''.''
      else concat (map (\<lambda>c. [c, CHR ''.'']) (filter isupper s)))"
  using py_join_dot [of "filter isupper s"] by (simp add: initials_of_def)

theorem initials_of_shape_witness: "initials_of ''Jean-Paul'' = ''J.P.''"
  using initials_of_shape [of "''Jean-Paul''"] by (simp add: isupper_def)

text \<open>
  C5 as stated fails at its own example: the initials of "Jean-Paul" are not "JP.".
\<close>

theorem initials_of_Jean_Paul_counterexample: "initials_of ''Jean-Paul'' \<noteq> ''JP.''"
  by (simp add: initials_of_def isupper_def)

text \<open>
  C6.  The initials of "Jeff" are "J." and those of "J.T." are "J.T.": the periods of
  the name are dropped with its other characters, and one period is put after each
  uppercase character.
\<close>

theorem initials_of_examples:
  "initials_of ''Jeff'' = ''J.'' \<and> initials_of ''J.T.'' = ''J.T.''"
  by (simp add: initials_of_def isupper_def)

section \<open>The citation record\<close>

lemmas eval_defs = generate_citation_def sample_fetch_def url_def sample_root_def leaf_def
  creator_def scan_other_def initials_of_def isupper_def citation_string_def sublist_code

lemma generate_citation_Inr:
  assumes "generate_citation fetch mip centre model experiment version = Inr r"
  obtains root st "is" where
    "fetch (url mip centre model experiment) = Inr root"
    "scan_root (children root)
       \<lparr>doi = Some [], publisher = Some [], publicationYear = Some [],
        givenNames = [], familyNames = []\<rparr> = Inr st"
    "initials (givenNames st) = Inr is"
    "join_names (familyNames st) is = Inr (names r)"
    "doi r = doi st" "publisher r = publisher st" "publicationYear r = publicationYear st"
    "givenNames r = givenNames st" "familyNames r = familyNames st"
    "MIP r = mip" "Centre r = centre" "Model r = model" "Experiment r = experiment"
    "Version r = version"
    "citation r = citation_string (names r) st mip centre model experiment version"
  using assms unfolding generate_citation_def
  by (auto split: sum.splits)

lemma sublist_mid: "sublist xs (ps @ xs @ ss)"
  by (rule sublist_appendI)

text \<open>
  C4.  In the record \<open>generate_citation\<close> returns, the citation is the joined names,
  the year in parentheses, then Centre, Model, the fixed words, MIP, Experiment,
  Version, publisher and the DOI after \<open>https://doi.org/\<close>, each as Python's f-string
  writes it; so Centre, Model, MIP, Experiment, Version, the publisher and the DOI URL
  each occur in it as a contiguous substring.
\<close>

theorem citation_format:
  assumes "generate_citation fetch mip centre model experiment version = Inr r"
  shows "citation r =
           py_join '', '' (names r) @ '' ('' @ fmt (publicationYear r) @ ''). '' @ centre
           @ '' '' @ model @ '' model output prepared for CMIP6 '' @ mip @ '' '' @ experiment
           @ ''. '' @ version @ ''. '' @ fmt (publisher r) @ ''. https://doi.org/''
           @ fmt (doi r) \<and>
         sublist centre (citation r) \<and> sublist model (citation r) \<and>
         sublist mip (citation r) \<and> sublist experiment (citation r) \<and>
         sublist version (citation r) \<and> sublist (fmt (publisher r)) (citation r) \<and>
         sublist (''https://doi.org/'' @ fmt (doi r)) (citation r)"
proof -
  let ?a = "py_join '', '' (names r) @ '' ('' @ fmt (publicationYear r) @ ''). ''"
  let ?c = "citation r"
  from assms have eq: "?c =
      ?a @ centre @ '' '' @ model @ '' model output prepared for CMIP6 '' @ mip @ '' ''
      @ experiment @ ''. '' @ version @ ''. '' @ fmt (publisher r) @ ''. ''
      @ (''https://doi.org/'' @ fmt (doi r)) @ []"
    by (elim generate_citation_Inr) (simp add: citation_string_def)
  have 1: "sublist centre ?c"
    unfolding eq by (rule sublist_mid)
  have 2: "sublist model ?c"
    using sublist_mid [of model "?a @ centre @ '' ''"] unfolding eq by simp
  have 3: "sublist mip ?c"
    using sublist_mid [of mip "?a @ centre @ '' '' @ model @ '' model output prepared for CMIP6 ''"]
    unfolding eq by simp
  have 4: "sublist experiment ?c"
    using sublist_mid [of "experiment"
        "?a @ centre @ '' '' @ model @ '' model output prepared for CMIP6 '' @ mip @ '' ''"]
    unfolding eq by simp
  have 5: "sublist version ?c"
    using sublist_mid [of version
        "?a @ centre @ '' '' @ model @ '' model output prepared for CMIP6 '' @ mip @ '' ''
         @ experiment @ ''. ''"]
    unfolding eq by simp
  have 6: "sublist (fmt (publisher r)) ?c"
    using sublist_mid [of "fmt (publisher r)"
        "?a @ centre @ '' '' @ model @ '' model output prepared for CMIP6 '' @ mip @ '' ''
         @ experiment @ ''. '' @ version @ ''. ''"]
    unfolding eq by simp
  have 7: "sublist (''https://doi.org/'' @ fmt (doi r)) ?c"
    using sublist_mid [of "''https://doi.org/'' @ fmt (doi r)"
        "?a @ centre @ '' '' @ model @ '' model output prepared for CMIP6 '' @ mip @ '' ''
         @ experiment @ ''. '' @ version @ ''. '' @ fmt (publisher r) @ ''. ''" "[]"]
    unfolding eq by simp
  from eq 1 2 3 4 5 6 7 show ?thesis by simp
qed

lemma sample_run:
  "generate_citation sample_fetch ''CMIP'' ''MOHC'' ''HadGEM3-GC31-LL'' ''historical'' v
   = Inr (sample_record v)"
  by (simp add: eval_defs sample_record_def)

theorem citation_format_witness:
  "generate_citation sample_fetch ''CMIP'' ''MOHC'' ''HadGEM3-GC31-LL'' ''historical''
     ''v20190624'' = Inr (sample_record ''v20190624'') \<and>
   citation (sample_record ''v20190624'') =
     ''Ridley, J., Menary, M., Kuhlbrodt, T., Andrews, M., Andrews, T. (2019). MOHC HadGEM3-GC31-LL model output prepared for CMIP6 CMIP historical. v20190624. Earth System Grid Federation. https://doi.org/10.22033/ESGF/CMIP6.6109'' \<and>
   sublist ''https://doi.org/10.22033/ESGF/CMIP6.6109'' (citation (sample_record ''v20190624''))"
proof -
  have d: "doi (sample_record ''v20190624'') = Some ''10.22033/ESGF/CMIP6.6109''"
    by (simp add: sample_record_def)
  from citation_format [OF sample_run [of "''v20190624''"]] d sample_run [of "''v20190624''"]
  show ?thesis
    by (simp add: sample_record_def)
qed

subsection \<open>Names\<close>

lemma scan_names_lists:
  "givenNames (scan_names xs st) =
     givenNames st @ map etext (filter (\<lambda>x. sublist ''givenName'' (tag x)) xs) \<and>
   familyNames (scan_names xs st) =
     familyNames st @ map etext
       (filter (\<lambda>x. \<not> sublist ''givenName'' (tag x) \<and> sublist ''familyName'' (tag x)) xs)"
  by (induction xs arbitrary: st) auto

lemma scan_creators_lists:
  "givenNames (scan_creators cs st) = givenNames st @ concat (map given_of cs) \<and>
   familyNames (scan_creators cs st) = familyNames st @ concat (map family_of cs)"
  by (induction cs arbitrary: st) (auto simp: scan_names_lists given_of_def family_of_def)

lemma scan_other_lists:
  "givenNames (scan_other child st) =
     givenNames st @ (if sublist ''creators'' (tag child)
                      then concat (map given_of (children child)) else []) \<and>
   familyNames (scan_other child st) =
     familyNames st @ (if sublist ''creators'' (tag child)
                      then concat (map family_of (children child)) else [])"
  by (simp add: scan_other_def scan_creators_lists)

lemma scan_root_lists:
  "scan_root chs st = Inr st' \<Longrightarrow>
   givenNames st' = givenNames st @ concat (map given_of (visited chs)) \<and>
   familyNames st' = familyNames st @ concat (map family_of (visited chs))"
proof (induction chs arbitrary: st)
  case Nil
  then show ?case by (simp add: visited_def)
next
  case (Cons child rest)
  show ?case
  proof (cases "is_doi_child child")
    case True
    with Cons.prems have "scan_root rest (st\<lparr>doi := etext child\<rparr>) = Inr st'"
      by (simp add: is_doi_child_def)
    from Cons.IH [OF this] True show ?thesis by (simp add: visited_def)
  next
    case False
    with Cons.prems have "scan_root rest (scan_other child st) = Inr st'"
      by (auto simp: is_doi_child_def split: option.splits if_splits)
    from Cons.IH [OF this] False show ?thesis
      by (simp add: visited_def scan_other_lists)
  qed
qed

lemma initials_Inr:
  "initials xs = Inr is \<Longrightarrow>
   length is = length xs \<and> (\<forall>i<length xs. \<exists>g. xs ! i = Some g \<and> is ! i = initials_of g)"
proof (induction xs arbitrary: "is" rule: initials.induct)
  case 1
  then show ?case by simp
next
  case (2 rest)
  then show ?case by simp
next
  case (3 s rest)
  then obtain js where js: "initials rest = Inr js" "is = initials_of s # js"
    by (auto split: sum.splits)
  from 3(1) [OF js(1)] js(2) show ?case
    by (auto simp: nth_Cons split: nat.splits)
qed

lemma join_names_Inr:
  "join_names fs is = Inr ns \<Longrightarrow>
   length ns = min (length fs) (length is) \<and>
   (\<forall>i<length ns. \<exists>f. fs ! i = Some f \<and> ns ! i = f @ '', '' @ is ! i)"
proof (induction fs "is" arbitrary: ns rule: join_names.induct)
  case (1 a as b bs)
  then obtain f ms where f: "a = Some f" "join_names as bs = Inr ms"
      "ns = (f @ '', '' @ b) # ms"
    by (auto split: option.splits sum.splits)
  from 1(1) [OF f(1) f(2)] f(3) show ?case
    by (auto simp: nth_Cons f(1) split: nat.splits)
qed simp_all

lemma concat_singletons:
  "\<forall>x\<in>set xs. length (f x) = 1 \<Longrightarrow>
   length (concat (map f xs)) = length xs \<and>
   (\<forall>i<length xs. f (xs ! i) = [concat (map f xs) ! i])"
proof (induction xs)
  case Nil
  then show ?case by simp
next
  case (Cons x xs)
  then obtain y where y: "f x = [y]"
    by (cases "f x") auto
  from Cons show ?case
    by (auto simp: y nth_Cons split: nat.splits)
qed

text \<open>
  C7, as the code has it.  In a record \<open>generate_citation\<close> returns, \<open>names\<close> has as many
  entries as the shorter of \<open>givenNames\<close> and \<open>familyNames\<close>, and its entry \<open>i\<close> is
  family name \<open>i\<close>, a comma and a space, and the initials of given name \<open>i\<close>.  When
  every creator element of the document has exactly one given name entry and exactly
  one family name entry, the two lists have one entry per creator, entry \<open>i\<close> of each
  comes from creator \<open>i\<close>, and \<open>names\<close> has one entry per creator.
\<close>

theorem names_pairing:
  assumes "generate_citation fetch mip centre model experiment version = Inr r"
  shows "length (names r) = min (length (givenNames r)) (length (familyNames r)) \<and>
         (\<forall>i<length (names r). \<exists>f g.
            familyNames r ! i = Some f \<and> givenNames r ! i = Some g \<and>
            names r ! i = f @ '', '' @ initials_of g) \<and>
         (\<exists>root. fetch (url mip centre model experiment) = Inr root \<and>
            ((\<forall>cr\<in>set (creator_elements root).
                length (given_of cr) = 1 \<and> length (family_of cr) = 1) \<longrightarrow>
             length (givenNames r) = length (creator_elements root) \<and>
             length (familyNames r) = length (creator_elements root) \<and>
             length (names r) = length (creator_elements root) \<and>
             (\<forall>i<length (creator_elements root).
                given_of (creator_elements root ! i) = [givenNames r ! i] \<and>
                family_of (creator_elements root ! i) = [familyNames r ! i])))"
proof -
  from assms obtain root st "is" where
    root: "fetch (url mip centre model experiment) = Inr root"
    and scan: "scan_root (children root)
       \<lparr>doi = Some [], publisher = Some [], publicationYear = Some [],
        givenNames = [], familyNames = []\<rparr> = Inr st"
    and ini: "initials (givenNames st) = Inr is"
    and joi: "join_names (familyNames st) is = Inr (names r)"
    and g: "givenNames r = givenNames st" and f: "familyNames r = familyNames st"
    by (elim generate_citation_Inr)
  note I = initials_Inr [OF ini] and J = join_names_Inr [OF joi]
  have len: "length (names r) = min (length (givenNames r)) (length (familyNames r))"
    using I J by (simp add: g f min.commute)
  have entries: "\<forall>i<length (names r). \<exists>f g.
            familyNames r ! i = Some f \<and> givenNames r ! i = Some g \<and>
            names r ! i = f @ '', '' @ initials_of g"
  proof (intro allI impI)
    fix i assume i: "i < length (names r)"
    with J obtain fam where fam: "familyNames st ! i = Some fam"
        "names r ! i = fam @ '', '' @ is ! i" by blast
    from i J I have "i < length (givenNames st)" by simp
    with I obtain giv where giv: "givenNames st ! i = Some giv" "is ! i = initials_of giv"
      by blast
    from fam giv show "\<exists>f g. familyNames r ! i = Some f \<and> givenNames r ! i = Some g \<and>
            names r ! i = f @ '', '' @ initials_of g"
      by (simp add: g f)
  qed
  from scan_root_lists [OF scan]
  have gl: "givenNames r = concat (map given_of (creator_elements root))"
    and fl: "familyNames r = concat (map family_of (creator_elements root))"
    by (simp_all add: g f visited_def creator_elements_def)
  have paired: "(\<forall>cr\<in>set (creator_elements root).
                length (given_of cr) = 1 \<and> length (family_of cr) = 1) \<longrightarrow>
             length (givenNames r) = length (creator_elements root) \<and>
             length (familyNames r) = length (creator_elements root) \<and>
             length (names r) = length (creator_elements root) \<and>
             (\<forall>i<length (creator_elements root).
                given_of (creator_elements root ! i) = [givenNames r ! i] \<and>
                family_of (creator_elements root ! i) = [familyNames r ! i])"
  proof
    assume one: "\<forall>cr\<in>set (creator_elements root).
                length (given_of cr) = 1 \<and> length (family_of cr) = 1"
    then have og: "\<forall>cr\<in>set (creator_elements root). length (given_of cr) = 1"
      and "of": "\<forall>cr\<in>set (creator_elements root). length (family_of cr) = 1"
      by simp_all
    from concat_singletons [OF og] concat_singletons [OF "of"] len
    show "length (givenNames r) = length (creator_elements root) \<and>
             length (familyNames r) = length (creator_elements root) \<and>
             length (names r) = length (creator_elements root) \<and>
             (\<forall>i<length (creator_elements root).
                given_of (creator_elements root ! i) = [givenNames r ! i] \<and>
                family_of (creator_elements root ! i) = [familyNames r ! i])"
      unfolding gl fl by simp
  qed
  from len entries root paired show ?thesis by blast
qed

lemma sample_creators:
  "creator_elements sample_root =
     [creator ''Jeff'' ''Ridley'', creator ''Matthew'' ''Menary'',
      creator ''Till'' ''Kuhlbrodt'', creator ''Martin'' ''Andrews'',
      creator ''Tim'' ''Andrews'']"
  by (simp add: creator_elements_def sample_root_def is_doi_child_def leaf_def sublist_code)

lemma creator_one_each:
  "length (given_of (creator g f)) = 1 \<and> length (family_of (creator g f)) = 1"
  by (simp add: given_of_def family_of_def creator_def leaf_def sublist_code)

theorem names_pairing_witness:
  "generate_citation sample_fetch ''CMIP'' ''MOHC'' ''HadGEM3-GC31-LL'' ''historical''
     ''v20190624'' = Inr (sample_record ''v20190624'') \<and>
   length (names (sample_record ''v20190624'')) = 5 \<and>
   length (givenNames (sample_record ''v20190624'')) = length (creator_elements sample_root) \<and>
   length (familyNames (sample_record ''v20190624'')) = length (creator_elements sample_root) \<and>
   given_of (creator_elements sample_root ! 2) = [givenNames (sample_record ''v20190624'') ! 2] \<and>
   family_of (creator_elements sample_root ! 2) = [familyNames (sample_record ''v20190624'') ! 2] \<and>
   names (sample_record ''v20190624'') ! 2 = ''Kuhlbrodt, T.''"
proof -
  let ?r = "sample_record ''v20190624''"
  note run = sample_run [of "''v20190624''"]
  from names_pairing [OF run] obtain root where
    root: "sample_fetch (url ''CMIP'' ''MOHC'' ''HadGEM3-GC31-LL'' ''historical'') = Inr root"
    and imp: "(\<forall>cr\<in>set (creator_elements root).
                length (given_of cr) = 1 \<and> length (family_of cr) = 1) \<longrightarrow>
             length (givenNames ?r) = length (creator_elements root) \<and>
             length (familyNames ?r) = length (creator_elements root) \<and>
             length (names ?r) = length (creator_elements root) \<and>
             (\<forall>i<length (creator_elements root).
                given_of (creator_elements root ! i) = [givenNames ?r ! i] \<and>
                family_of (creator_elements root ! i) = [familyNames ?r ! i])"
    by blast
  from root have r: "root = sample_root"
    by (simp add: sample_fetch_def)
  have ones: "\<forall>cr\<in>set (creator_elements sample_root).
                length (given_of cr) = 1 \<and> length (family_of cr) = 1"
    unfolding sample_creators using creator_one_each by auto
  have l5: "length (creator_elements sample_root) = 5"
    by (simp add: sample_creators)
  from imp [unfolded r] ones
  have concl: "length (givenNames ?r) = length (creator_elements sample_root)"
      "length (familyNames ?r) = length (creator_elements sample_root)"
      "length (names ?r) = length (creator_elements sample_root)"
      "\<forall>i<length (creator_elements sample_root).
                given_of (creator_elements sample_root ! i) = [givenNames ?r ! i] \<and>
                family_of (creator_elements sample_root ! i) = [familyNames ?r ! i]"
    by blast+
  from concl(4) l5 have at2:
    "given_of (creator_elements sample_root ! 2) = [givenNames ?r ! 2] \<and>
     family_of (creator_elements sample_root ! 2) = [familyNames ?r ! 2]"
    by simp
  have n2: "names ?r ! 2 = ''Kuhlbrodt, T.''"
    by (simp add: sample_record_def)
  from run concl(1,2,3) l5 at2 n2 show ?thesis by simp
qed

text \<open>
  C7 as stated fails on a document whose second creator has a family name entry only:
  the record has one given name, two family names, and one name for two creators.
\<close>

theorem names_pairing_counterexample:
  "generate_citation institution_fetch ''CMIP'' ''MOHC'' ''HadGEM3-GC31-LL'' ''historical''
     ''v20190624'' = Inr institution_record \<and>
   length (givenNames institution_record) = 1 \<and>
   length (familyNames institution_record) = 2 \<and>
   length (givenNames institution_record) \<noteq> length (familyNames institution_record) \<and>
   length (creator_elements institution_root) = 2 \<and>
   length (names institution_record) = 1"
  by (simp add: generate_citation_def institution_fetch_def institution_root_def url_def
        leaf_def creator_def scan_other_def initials_of_def isupper_def citation_string_def
        sublist_code institution_record_def creator_elements_def is_doi_child_def)

section \<open>The batch wrapper\<close>

lemma row_citation_Inr:
  "row_citation fetch r = Inr c \<longleftrightarrow>
   (\<exists>mip centre model experiment version.
      map_of r ''MIP'' = Some mip \<and> map_of r ''Centre'' = Some centre \<and>
      map_of r ''Model'' = Some model \<and> map_of r ''Experiment'' = Some experiment \<and>
      map_of r ''Version'' = Some version \<and>
      generate_citation fetch mip centre model experiment version = Inr c)"
  by (auto simp: row_citation_def row_attr_def split: option.splits)

lemma citations_loop_Inr:
  "citations_loop fetch df acc = Inr out \<longleftrightarrow>
   (\<exists>cs. out = acc @ cs \<and> list_all2 (\<lambda>r c. row_citation fetch r = Inr c) df cs)"
proof (induction df arbitrary: acc)
  case Nil
  then show ?case by auto
next
  case (Cons r rest)
  show ?case
  proof (cases "row_citation fetch r")
    case (Inl e)
    then show ?thesis by (auto simp: list_all2_Cons1)
  next
    case (Inr c)
    then show ?thesis by (auto simp: Cons.IH list_all2_Cons1)
  qed
qed

lemma df_to_citations_Inr:
  "df_to_citations fetch df = Inr out \<longleftrightarrow>
   list_all2 (\<lambda>r c. row_citation fetch r = Inr c) df out"
  by (simp add: df_to_citations_def citations_loop_Inr)

text \<open>
  C10.  The table \<open>df_to_citations\<close> returns for a table of N rows has N rows, and its
  row \<open>i\<close> is the record that \<open>generate_citation\<close> returns on the five fields MIP,
  Centre, Model, Experiment and Version of input row \<open>i\<close>.  It does return a table
  whenever every row supplies the five fields and \<open>generate_citation\<close> returns on
  them.
\<close>

theorem df_to_citations_rows:
  "(df_to_citations fetch df = Inr out \<longrightarrow>
      length out = length df \<and>
      (\<forall>i<length df. \<exists>mip centre model experiment version.
         map_of (df ! i) ''MIP'' = Some mip \<and> map_of (df ! i) ''Centre'' = Some centre \<and>
         map_of (df ! i) ''Model'' = Some model \<and>
         map_of (df ! i) ''Experiment'' = Some experiment \<and>
         map_of (df ! i) ''Version'' = Some version \<and>
         generate_citation fetch mip centre model experiment version = Inr (out ! i))) \<and>
   ((\<forall>r\<in>set df. \<exists>mip centre model experiment version c.
         map_of r ''MIP'' = Some mip \<and> map_of r ''Centre'' = Some centre \<and>
         map_of r ''Model'' = Some model \<and> map_of r ''Experiment'' = Some experiment \<and>
         map_of r ''Version'' = Some version \<and>
         generate_citation fetch mip centre model experiment version = Inr c) \<longrightarrow>
      (\<exists>out. df_to_citations fetch df = Inr out))"
proof (intro conjI impI)
  assume run: "df_to_citations fetch df = Inr out"
  then have all2: "list_all2 (\<lambda>r c. row_citation fetch r = Inr c) df out"
    by (simp add: df_to_citations_Inr)
  then show "length out = length df"
    by (simp add: list_all2_lengthD)
  show "\<forall>i<length df. \<exists>mip centre model experiment version.
         map_of (df ! i) ''MIP'' = Some mip \<and> map_of (df ! i) ''Centre'' = Some centre \<and>
         map_of (df ! i) ''Model'' = Some model \<and>
         map_of (df ! i) ''Experiment'' = Some experiment \<and>
         map_of (df ! i) ''Version'' = Some version \<and>
         generate_citation fetch mip centre model experiment version = Inr (out ! i)"
  proof (intro allI impI)
    fix i assume "i < length df"
    with all2 have "row_citation fetch (df ! i) = Inr (out ! i)"
      by (rule list_all2_nthD)
    then show "\<exists>mip centre model experiment version.
         map_of (df ! i) ''MIP'' = Some mip \<and> map_of (df ! i) ''Centre'' = Some centre \<and>
         map_of (df ! i) ''Model'' = Some model \<and>
         map_of (df ! i) ''Experiment'' = Some experiment \<and>
         map_of (df ! i) ''Version'' = Some version \<and>
         generate_citation fetch mip centre model experiment version = Inr (out ! i)"
      by (simp only: row_citation_Inr)
  qed
next
  assume "\<forall>r\<in>set df. \<exists>mip centre model experiment version c.
         map_of r ''MIP'' = Some mip \<and> map_of r ''Centre'' = Some centre \<and>
         map_of r ''Model'' = Some model \<and> map_of r ''Experiment'' = Some experiment \<and>
         map_of r ''Version'' = Some version \<and>
         generate_citation fetch mip centre model experiment version = Inr c"
  then have "\<forall>r\<in>set df. \<exists>c. row_citation fetch r = Inr c"
    unfolding row_citation_Inr by blast
  then have "\<exists>out. list_all2 (\<lambda>r c. row_citation fetch r = Inr c) df out"
  proof (induction df)
    case Nil
    then show ?case by simp
  next
    case (Cons r rest)
    then obtain c cs where "row_citation fetch r = Inr c"
        "list_all2 (\<lambda>r c. row_citation fetch r = Inr c) rest cs"
      by auto
    then have "list_all2 (\<lambda>r c. row_citation fetch r = Inr c) (r # rest) (c # cs)"
      by simp
    then show ?case by blast
  qed
  then show "\<exists>out. df_to_citations fetch df = Inr out"
    by (simp add: df_to_citations_Inr)
qed

theorem df_to_citations_rows_witness:
  "df_to_citations sample_fetch sample_df
     = Inr [sample_record ''v20190624'', sample_record ''v20200101''] \<and>
   length [sample_record ''v20190624'', sample_record ''v20200101''] = length sample_df \<and>
   map_of (sample_df ! 1) ''Version'' = Some ''v20200101'' \<and>
   generate_citation sample_fetch ''CMIP'' ''MOHC'' ''HadGEM3-GC31-LL'' ''historical''
     ''v20200101'' = Inr ([sample_record ''v20190624'', sample_record ''v20200101''] ! 1)"
proof -
  let ?out = "[sample_record ''v20190624'', sample_record ''v20200101'']"
  have rows: "\<forall>r\<in>set sample_df. \<exists>mip centre model experiment version c.
         map_of r ''MIP'' = Some mip \<and> map_of r ''Centre'' = Some centre \<and>
         map_of r ''Model'' = Some model \<and> map_of r ''Experiment'' = Some experiment \<and>
         map_of r ''Version'' = Some version \<and>
         generate_citation sample_fetch mip centre model experiment version = Inr c"
    using sample_run by (simp add: sample_df_def sample_row_def)
  note inst = df_to_citations_rows [of sample_fetch sample_df ?out]
  from inst [THEN conjunct2] rows
  have returns: "\<exists>out. df_to_citations sample_fetch sample_df = Inr out"
    by (rule mp)
  have run: "df_to_citations sample_fetch sample_df = Inr ?out"
    by (simp add: df_to_citations_def row_citation_def row_attr_def sample_df_def
          sample_row_def sample_run)
  from inst [THEN conjunct1] run
  have rel: "length ?out = length sample_df \<and>
      (\<forall>i<length sample_df. \<exists>mip centre model experiment version.
         map_of (sample_df ! i) ''MIP'' = Some mip \<and>
         map_of (sample_df ! i) ''Centre'' = Some centre \<and>
         map_of (sample_df ! i) ''Model'' = Some model \<and>
         map_of (sample_df ! i) ''Experiment'' = Some experiment \<and>
         map_of (sample_df ! i) ''Version'' = Some version \<and>
         generate_citation sample_fetch mip centre model experiment version = Inr (?out ! i))"
    by (rule mp)
  have "(1::nat) < length sample_df"
    by (simp add: sample_df_def)
  with rel obtain m ce mo ex ve where
    f: "map_of (sample_df ! 1) ''MIP'' = Some m"
       "map_of (sample_df ! 1) ''Centre'' = Some ce"
       "map_of (sample_df ! 1) ''Model'' = Some mo"
       "map_of (sample_df ! 1) ''Experiment'' = Some ex"
       "map_of (sample_df ! 1) ''Version'' = Some ve"
    and g: "generate_citation sample_fetch m ce mo ex ve = Inr (?out ! 1)"
    by blast
  from f have "m = ''CMIP''" "ce = ''MOHC''" "mo = ''HadGEM3-GC31-LL''"
      "ex = ''historical''" "ve = ''v20200101''"
    by (simp_all add: sample_df_def sample_row_def)
  with g have last: "generate_citation sample_fetch ''CMIP'' ''MOHC'' ''HadGEM3-GC31-LL''
      ''historical'' ''v20200101'' = Inr (?out ! 1)"
    by simp
  have v: "map_of (sample_df ! 1) ''Version'' = Some ''v20200101''"
    by (simp add: sample_df_def sample_row_def)
  from rel have len: "length ?out = length sample_df" ..
  show ?thesis
    by (rule conjI [OF run conjI [OF len conjI [OF v last]]])
qed

end
